theory Spec2Isabelle
  imports Main "HOL-Library.Word"
begin

section \<open>Go values used by package storage\<close>

type_synonym byte = "8 word"

text \<open>Go \<open>int\<close> (64-bit platforms) and \<open>int64\<close>; \<open>int32\<close> is the width of the DTO fields.\<close>

type_synonym go_int = "64 word"
type_synonym int32 = "32 word"

text \<open>The conversion \<open>int32(x)\<close> of a 64-bit integer keeps the low 32 bits.\<close>

definition to_int32 :: "go_int \<Rightarrow> int32" where
  "to_int32 x = ucast x"

text \<open>
  Error values. \<open>Errorf p e\<close> is \<open>fmt.Errorf("p: %w", e)\<close>; \<open>APIError c\<close> is an error that
  has a method \<open>ErrorCode()\<close> returning \<open>c\<close>; \<open>OperationError e\<close> is the SDK's wrapper around
  the error of a request (it unwraps to \<open>e\<close>); \<open>SysError n\<close> is the error of a system call,
  named by its errno. \<open>S3NotFoundError\<close> and \<open>S3DownloadError\<close> are the two error types
  that the source declares; neither has an \<open>Unwrap\<close> method.
\<close>

datatype go_error =
    EOF
  | ErrorsNew string
  | SysError string
  | Errorf string go_error
  | APIError string
  | OperationError go_error
  | S3NotFoundError string
  | S3DownloadError string go_error

text \<open>\<open>errors.As(err, &apiErr)\<close> for \<open>apiErr interface{ ErrorCode() string }\<close>, followed by
  \<open>apiErr.ErrorCode()\<close>: the first error of the unwrap chain that has the method.\<close>

fun errors_As_ErrorCode :: "go_error \<Rightarrow> string option" where
  "errors_As_ErrorCode (APIError c) = Some c"
| "errors_As_ErrorCode (OperationError e) = errors_As_ErrorCode e"
| "errors_As_ErrorCode (Errorf p e) = errors_As_ErrorCode e"
| "errors_As_ErrorCode _ = None"


definition StatusBadRequest :: int where
  "StatusBadRequest = 400"

definition StatusInternalServerError :: int where
  "StatusInternalServerError = 500"

section \<open>The DTOs\<close>

text \<open>\<open>dto.PictureRequest\<close>, with the field types that the conversions in \<open>Save\<close> show.\<close>

record PictureRequest =
  Name :: string
  Destination :: string
  Height :: int32
  Width :: int32
  Size :: int32
  ContentType :: string

text \<open>\<open>dto.InvalidPictureFileError\<close>; \<open>Data\<close> is a \<open>gin.H\<close>, a map from strings, and the
  empty map stands for the field left unset.\<close>

record InvalidPictureFileError =
  StatusCode :: int
  Error :: go_error
  Data :: "string \<rightharpoonup> string"

section \<open>The upload: \<open>multipart.FileHeader\<close> and the stream it opens\<close>

text \<open>
  An opened \<open>multipart.File\<close>: its bytes, the read position, an error that the next
  \<open>Read\<close> reports (if any), and the outcomes of the coming \<open>Seek\<close> calls in order
  (\<open>None\<close> for success; past the end of the script every \<open>Seek\<close> succeeds).
\<close>

record multipart_File =
  contents :: "byte list"
  offset :: nat
  read_error :: "go_error option"
  seek_script :: "go_error option list"

record FileHeader =
  Filename :: string
  FileSize :: go_int
  Open :: "go_error + multipart_File"

text \<open>\<open>src.Read(buffer)\<close> on a buffer of \<open>n\<close> bytes: the bytes read and the error. At the end
  of the stream nothing is read and the error is \<open>io.EOF\<close>.\<close>

definition file_Read :: "multipart_File \<Rightarrow> nat \<Rightarrow> multipart_File \<times> byte list \<times> go_error option" where
  "file_Read f n =
     (case read_error f of
        Some e \<Rightarrow> (f, [], Some e)
      | None \<Rightarrow>
          if length (contents f) \<le> offset f then (f, [], Some EOF)
          else (let chunk = take n (drop (offset f) (contents f))
                in (f\<lparr>offset := offset f + length chunk\<rparr>, chunk, None)))"

text \<open>\<open>make([]byte, n)\<close> after a \<open>Read\<close> that filled its first bytes: the rest stays zero.\<close>

definition fill_buffer :: "nat \<Rightarrow> byte list \<Rightarrow> byte list" where
  "fill_buffer n chunk = chunk @ replicate (n - length chunk) 0"

text \<open>\<open>src.Seek(0, io.SeekStart)\<close>.\<close>

definition file_Seek_start :: "multipart_File \<Rightarrow> multipart_File \<times> go_error option" where
  "file_Seek_start f =
     (case seek_script f of
        [] \<Rightarrow> (f\<lparr>offset := 0\<rparr>, None)
      | None # rest \<Rightarrow> (f\<lparr>offset := 0, seek_script := rest\<rparr>, None)
      | Some e # rest \<Rightarrow> (f\<lparr>seek_script := rest\<rparr>, Some e))"

text \<open>The second \<open>Seek\<close> on the stream does not fail.\<close>

definition second_rewind_ok :: "multipart_File \<Rightarrow> bool" where
  "second_rewind_ok f =
     (case tl (seek_script f) of
        Some e # rest \<Rightarrow> False
      | _ \<Rightarrow> True)"

text \<open>What a reader of the stream sees from the current position on.\<close>

definition remaining :: "multipart_File \<Rightarrow> byte list" where
  "remaining f = drop (offset f) (contents f)"

section \<open>Sniffing and the decoder registry\<close>

record image_Config =
  ConfigWidth :: go_int
  ConfigHeight :: go_int

datatype decoder =
    jpeg_DecodeConfig
  | png_DecodeConfig
  | gif_DecodeConfig
  | tiff_DecodeConfig
  | webp_DecodeConfig
  | bmp_DecodeConfig

text \<open>
  The library functions that \<open>Save\<close> calls are parameters: \<open>http.DetectContentType\<close>,
  the six \<open>DecodeConfig\<close> functions (each gives its result and the number of bytes it
  consumed from the reader), and \<open>utils.NewUniqueString\<close>, whose result for the call at
  hand is passed to \<open>Save\<close>.
\<close>

record env =
  DetectContentType :: "byte list \<Rightarrow> string"
  DecodeConfig :: "decoder \<Rightarrow> byte list \<Rightarrow> (go_error + image_Config) \<times> nat"

definition CONTENT_DECODERS :: "string \<rightharpoonup> decoder" where
  "CONTENT_DECODERS =
     [''image/jpeg'' \<mapsto> jpeg_DecodeConfig,
      ''image/png'' \<mapsto> png_DecodeConfig,
      ''image/gif'' \<mapsto> gif_DecodeConfig,
      ''image/tiff'' \<mapsto> tiff_DecodeConfig,
      ''image/webp'' \<mapsto> webp_DecodeConfig,
      ''image/bmp'' \<mapsto> bmp_DecodeConfig]"

text \<open>\<open>decoder(src)\<close>: the decoder reads from the current position and moves it.\<close>

definition run_decoder ::
  "env \<Rightarrow> decoder \<Rightarrow> multipart_File \<Rightarrow> multipart_File \<times> (go_error + image_Config)" where
  "run_decoder ev d f =
     (case DecodeConfig ev d (remaining f) of
        (r, k) \<Rightarrow> (f\<lparr>offset := offset f + min k (length (remaining f))\<rparr>, r))"

text \<open>\<open>filepath.Ext\<close> (separator \<open>/\<close>): the suffix from the last dot of the last path
  element, empty if that element has no dot. The scan runs from the end of the name.\<close>

fun Ext_scan :: "string \<Rightarrow> string \<Rightarrow> string" where
  "Ext_scan [] acc = []"
| "Ext_scan (c # cs) acc =
     (if c = CHR ''/'' then []
      else if c = CHR ''.'' then c # acc
      else Ext_scan cs (c # acc))"

definition filepath_Ext :: "string \<Rightarrow> string" where
  "filepath_Ext p = Ext_scan (rev p) []"

section \<open>The local medium: a file system\<close>

text \<open>A disk maps the names on the way from the root to a node; the root itself (the empty
  list) is a directory and has no entry. \<open>cwd\<close> is the working directory of the process.\<close>

datatype node = Dir | File "byte list"

record filesystem =
  cwd :: "string list"
  nodes :: "string list \<rightharpoonup> node"

fun split_slash :: "string \<Rightarrow> string list" where
  "split_slash [] = [[]]"
| "split_slash (c # cs) =
     (if c = CHR ''/'' then [] # split_slash cs
      else (case split_slash cs of
              [] \<Rightarrow> [[c]]
            | x # xs \<Rightarrow> (c # x) # xs))"

text \<open>Path resolution: empty and \<open>.\<close> elements are skipped, \<open>..\<close> goes up, and every
  element that is followed by another one must name a directory.\<close>

fun walk :: "(string list \<rightharpoonup> node) \<Rightarrow> string list \<Rightarrow> string list \<Rightarrow> go_error + string list" where
  "walk ns cur [] = Inr cur"
| "walk ns cur (c # cs) =
     (if c = [] \<or> c = ''.'' then walk ns cur cs
      else if c = ''..'' then walk ns (butlast cur) cs
      else if cs = [] then Inr (cur @ [c])
      else (case ns (cur @ [c]) of
              Some Dir \<Rightarrow> walk ns (cur @ [c]) cs
            | Some (File b) \<Rightarrow> Inl (SysError ''ENOTDIR'')
            | None \<Rightarrow> Inl (SysError ''ENOENT'')))"

text \<open>An absolute path starts at the root, any other path at the working directory.\<close>

definition start_dir :: "string list \<Rightarrow> string \<Rightarrow> string list" where
  "start_dir wd p = (case p of [] \<Rightarrow> wd | c # cs \<Rightarrow> if c = CHR ''/'' then [] else wd)"

definition resolve :: "filesystem \<Rightarrow> string \<Rightarrow> go_error + string list" where
  "resolve fs p = walk (nodes fs) (start_dir (cwd fs) p) (split_slash p)"

definition is_dir :: "filesystem \<Rightarrow> string list \<Rightarrow> bool" where
  "is_dir fs q = (q = [] \<or> nodes fs q = Some Dir)"

definition node_exists :: "filesystem \<Rightarrow> string list \<Rightarrow> bool" where
  "node_exists fs q = (q = [] \<or> nodes fs q \<noteq> None)"

text \<open>Faults of the media that do not follow from their contents (permissions, a full
  disk, the network), one field per call that can fail. A copy or read fault says how many
  bytes went through before the error.\<close>

record faults =
  mkdir_fault :: "go_error option"
  create_fault :: "go_error option"
  copy_fault :: "(nat \<times> go_error) option"
  open_fault :: "go_error option"
  readall_fault :: "(nat \<times> go_error) option"
  upload_fault :: "go_error option"
  getobject_fault :: "go_error option"
  body_fault :: "go_error option"

definition no_faults :: faults where
  "no_faults =
     \<lparr>mkdir_fault = None, create_fault = None, copy_fault = None, open_fault = None,
      readall_fault = None, upload_fault = None, getobject_fault = None, body_fault = None\<rparr>"



text \<open>\<open>os.Create\<close>: the file is created empty, or truncated if it exists; the handle is
  the resolved path.\<close>

definition os_Create :: "faults \<Rightarrow> filesystem \<Rightarrow> string \<Rightarrow> go_error + string list \<times> filesystem" where
  "os_Create flt fs p =
     (case create_fault flt of
        Some e \<Rightarrow> Inl e
      | None \<Rightarrow>
          (case resolve fs p of
             Inl e \<Rightarrow> Inl e
           | Inr q \<Rightarrow>
               if is_dir fs q then Inl (SysError ''EISDIR'')
               else if \<not> is_dir fs (butlast q) then Inl (SysError ''ENOENT'')
               else Inr (q, fs\<lparr>nodes := (nodes fs)(q \<mapsto> File [])\<rparr>)))"

definition append_bytes :: "filesystem \<Rightarrow> string list \<Rightarrow> byte list \<Rightarrow> filesystem" where
  "append_bytes fs q bs =
     (case nodes fs q of
        Some (File old) \<Rightarrow> fs\<lparr>nodes := (nodes fs)(q \<mapsto> File (old @ bs))\<rparr>
      | _ \<Rightarrow> fs)"

text \<open>\<open>io.Copy(out, src)\<close>: everything from the current position of \<open>src\<close> to its end.\<close>

definition io_Copy ::
  "faults \<Rightarrow> string list \<Rightarrow> multipart_File \<Rightarrow> filesystem \<Rightarrow> filesystem \<times> go_error option" where
  "io_Copy flt out src fs =
     (case copy_fault flt of
        Some (k, e) \<Rightarrow> (append_bytes fs out (take k (remaining src)), Some e)
      | None \<Rightarrow> (append_bytes fs out (remaining src), None))"

text \<open>\<open>os.Open\<close> succeeds on every existing node, a directory too.\<close>

definition os_Open :: "faults \<Rightarrow> filesystem \<Rightarrow> string \<Rightarrow> go_error + string list" where
  "os_Open flt fs p =
     (case open_fault flt of
        Some e \<Rightarrow> Inl e
      | None \<Rightarrow>
          (case resolve fs p of
             Inl e \<Rightarrow> Inl e
           | Inr q \<Rightarrow> if node_exists fs q then Inr q else Inl (SysError ''ENOENT'')))"

text \<open>\<open>ioutil.ReadAll\<close>: what was read, and the error that stopped the read, if any.\<close>

definition ioutil_ReadAll :: "faults \<Rightarrow> filesystem \<Rightarrow> string list \<Rightarrow> byte list \<times> go_error option" where
  "ioutil_ReadAll flt fs q =
     (case nodes fs q of
        Some (File bs) \<Rightarrow>
          (case readall_fault flt of
             Some (k, e) \<Rightarrow> (take k bs, Some e)
           | None \<Rightarrow> (bs, None))
      | _ \<Rightarrow> ([], Some (SysError ''EISDIR'')))"

section \<open>The remote medium: buckets of objects\<close>

record s3_object =
  Body :: "byte list"
  ObjectContentType :: string
  ACL :: string

type_synonym s3_medium = "string \<times> string \<rightharpoonup> s3_object"

definition ObjectCannedACLPrivate :: string where
  "ObjectCannedACLPrivate = ''private''"

record PutObjectInput =
  PutBucket :: string
  PutKey :: string
  PutBody :: multipart_File
  PutContentType :: string
  PutACL :: string

definition uploader_Upload :: "faults \<Rightarrow> PutObjectInput \<Rightarrow> s3_medium \<Rightarrow> go_error + s3_medium" where
  "uploader_Upload flt inp m =
     (case upload_fault flt of
        Some e \<Rightarrow> Inl e
      | None \<Rightarrow>
          Inr (m((PutBucket inp, PutKey inp) \<mapsto>
                 \<lparr>Body = remaining (PutBody inp),
                  ObjectContentType = PutContentType inp,
                  ACL = PutACL inp\<rparr>)))"

text \<open>\<open>client.GetObject\<close>: a missing key is the API error \<open>NoSuchKey\<close> inside the SDK's
  operation error.\<close>

definition client_GetObject :: "faults \<Rightarrow> s3_medium \<Rightarrow> string \<Rightarrow> string \<Rightarrow> go_error + byte list" where
  "client_GetObject flt m bucket key =
     (case getobject_fault flt of
        Some e \<Rightarrow> Inl e
      | None \<Rightarrow>
          (case m (bucket, key) of
             None \<Rightarrow> Inl (OperationError (APIError ''NoSuchKey''))
           | Some ob \<Rightarrow> Inr (Body ob)))"

section \<open>The storages\<close>

record localImageStorage =
  path :: string

record s3ImageStorage =
  bucket :: string
  prefix :: string
  cloudFrontURL :: string


text \<open>\<open>NewS3Storage\<close>, from the result of loading the AWS configuration and the three
  configuration values: a non-empty prefix gets a final slash.\<close>

definition NewS3Storage :: "go_error option \<Rightarrow> string \<Rightarrow> string \<Rightarrow> string \<Rightarrow> go_error + s3ImageStorage" where
  "NewS3Storage load_err bkt pfx cfURL =
     (case load_err of
        Some err \<Rightarrow> Inl (Errorf ''failed to load AWS config'' err)
      | None \<Rightarrow>
          Inr \<lparr>bucket = bkt,
               prefix = (if pfx \<noteq> [] \<and> last pfx \<noteq> CHR ''/'' then pfx @ ''/'' else pfx),
               cloudFrontURL = cfURL\<rparr>)"

definition local_GetFullPath :: "localImageStorage \<Rightarrow> string \<Rightarrow> string" where
  "local_GetFullPath s destination = path s @ ''/'' @ destination"

definition s3_GetFullPath :: "s3ImageStorage \<Rightarrow> string \<Rightarrow> string" where
  "s3_GetFullPath s destination = cloudFrontURL s @ ''/'' @ prefix s @ destination"

definition server_error :: "go_error \<Rightarrow> InvalidPictureFileError" where
  "server_error err = \<lparr>StatusCode = StatusInternalServerError, Error = err, Data = Map.empty\<rparr>"

definition local_Save ::
  "env \<Rightarrow> localImageStorage \<Rightarrow> string \<Rightarrow> faults \<Rightarrow> FileHeader \<Rightarrow> filesystem \<Rightarrow>
     (InvalidPictureFileError + PictureRequest) \<times> filesystem" where
  "local_Save ev s unique flt file fs =
     (let extension = filepath_Ext (Filename file);
          destination = unique @ extension;
          fullPath = local_GetFullPath s destination
      in case Open file of
           Inl err \<Rightarrow> (Inl (server_error err), fs)
         | Inr src \<Rightarrow>
        (case file_Read src 512 of
           (src1, chunk, Some err) \<Rightarrow> (Inl (server_error err), fs)
         | (src1, chunk, None) \<Rightarrow>
        (let fileType = DetectContentType ev (fill_buffer 512 chunk)
         in case CONTENT_DECODERS fileType of
           None \<Rightarrow>
             (Inl \<lparr>StatusCode = StatusBadRequest,
                   Error = ErrorsNew ''unsupported format'',
                   Data = [''format'' \<mapsto> fileType]\<rparr>, fs)
         | Some decoder \<Rightarrow>
        (case file_Seek_start src1 of
           (src2, Some err) \<Rightarrow> (Inl (server_error err), fs)
         | (src2, None) \<Rightarrow>
        (case run_decoder ev decoder src2 of
           (src3, Inl err) \<Rightarrow>
             (Inl \<lparr>StatusCode = StatusInternalServerError,
                   Error = err,
                   Data = [''format'' \<mapsto> fileType]\<rparr>, fs)
         | (src3, Inr imageConfig) \<Rightarrow>
        (case os_Create flt fs fullPath of
           Inl err \<Rightarrow> (Inl (server_error err), fs)
         | Inr (out, fs1) \<Rightarrow>
        (let src4 = fst (file_Seek_start src3)
         in case io_Copy flt out src4 fs1 of
           (fs2, Some err) \<Rightarrow> (Inl (server_error err), fs2)
         | (fs2, None) \<Rightarrow>
             (Inr \<lparr>Name = Filename file,
                   Destination = destination,
                   Height = to_int32 (ConfigHeight imageConfig),
                   Width = to_int32 (ConfigWidth imageConfig),
                   Size = to_int32 (FileSize file),
                   ContentType = fileType\<rparr>, fs2))))))))"

definition local_Get ::
  "localImageStorage \<Rightarrow> faults \<Rightarrow> filesystem \<Rightarrow> string \<Rightarrow> byte list \<times> go_error option" where
  "local_Get s flt fs destination =
     (let fullPath = local_GetFullPath s destination
      in case os_Open flt fs fullPath of
           Inl err \<Rightarrow> ([], Some err)
         | Inr file \<Rightarrow> ioutil_ReadAll flt fs file)"

definition s3_Save ::
  "env \<Rightarrow> s3ImageStorage \<Rightarrow> string \<Rightarrow> faults \<Rightarrow> FileHeader \<Rightarrow> s3_medium \<Rightarrow>
     (InvalidPictureFileError + PictureRequest) \<times> s3_medium" where
  "s3_Save ev s unique flt file m =
     (let extension = filepath_Ext (Filename file);
          destination = unique @ extension
      in case Open file of
           Inl err \<Rightarrow> (Inl (server_error (Errorf ''cannot open file'' err)), m)
         | Inr src \<Rightarrow>
        (case file_Read src 512 of
           (src1, chunk, Some err) \<Rightarrow>
             (Inl (server_error (Errorf ''cannot read file header'' err)), m)
         | (src1, chunk, None) \<Rightarrow>
        (let contentType = DetectContentType ev (fill_buffer 512 chunk)
         in case CONTENT_DECODERS contentType of
           None \<Rightarrow>
             (Inl \<lparr>StatusCode = StatusBadRequest,
                   Error = ErrorsNew ''unsupported image format'',
                   Data = [''format'' \<mapsto> contentType]\<rparr>, m)
         | Some decoder \<Rightarrow>
        (case file_Seek_start src1 of
           (src2, Some err) \<Rightarrow> (Inl (server_error (Errorf ''seek error'' err)), m)
         | (src2, None) \<Rightarrow>
        (case run_decoder ev decoder src2 of
           (src3, Inl err) \<Rightarrow>
             (Inl \<lparr>StatusCode = StatusInternalServerError,
                   Error = Errorf ''decode error'' err,
                   Data = [''format'' \<mapsto> contentType]\<rparr>, m)
         | (src3, Inr imageCfg) \<Rightarrow>
        (let key = prefix s @ destination
         in case file_Seek_start src3 of
           (src4, Some err) \<Rightarrow> (Inl (server_error (Errorf ''seek before upload'' err)), m)
         | (src4, None) \<Rightarrow>
        (case uploader_Upload flt
                \<lparr>PutBucket = bucket s, PutKey = key, PutBody = src4,
                 PutContentType = contentType, PutACL = ObjectCannedACLPrivate\<rparr> m of
           Inl err \<Rightarrow> (Inl (server_error (Errorf ''s3 upload failed'' err)), m)
         | Inr m' \<Rightarrow>
             (Inr \<lparr>Name = Filename file,
                   Destination = destination,
                   Height = to_int32 (ConfigHeight imageCfg),
                   Width = to_int32 (ConfigWidth imageCfg),
                   Size = to_int32 (FileSize file),
                   ContentType = contentType\<rparr>, m'))))))))"

definition s3_Get ::
  "s3ImageStorage \<Rightarrow> faults \<Rightarrow> s3_medium \<Rightarrow> string \<Rightarrow> byte list \<times> go_error option" where
  "s3_Get s flt m destination =
     (let key = prefix s @ destination
      in case client_GetObject flt m (bucket s) key of
           Inl err \<Rightarrow>
             (if errors_As_ErrorCode err = Some ''NoSuchKey''
              then ([], Some (S3NotFoundError destination))
              else ([], Some (S3DownloadError destination err)))
         | Inr body \<Rightarrow>
             (case body_fault flt of
                Some err \<Rightarrow> ([], Some (S3DownloadError destination err))
              | None \<Rightarrow> (body, None)))"

section \<open>The interface \<open>ImageStorage\<close> over both media\<close>

datatype ImageStorage = LocalStorage localImageStorage | S3Storage s3ImageStorage

record media =
  disk :: filesystem
  s3 :: s3_medium


fun Save ::
  "env \<Rightarrow> ImageStorage \<Rightarrow> string \<Rightarrow> faults \<Rightarrow> FileHeader \<Rightarrow> media \<Rightarrow>
     (InvalidPictureFileError + PictureRequest) \<times> media" where
  "Save ev (LocalStorage s) unique flt file w =
     (case local_Save ev s unique flt file (disk w) of (r, fs') \<Rightarrow> (r, w\<lparr>disk := fs'\<rparr>))"
| "Save ev (S3Storage s) unique flt file w =
     (case s3_Save ev s unique flt file (s3 w) of (r, m') \<Rightarrow> (r, w\<lparr>s3 := m'\<rparr>))"


section \<open>Example inputs\<close>

text \<open>
  A small environment and a few uploads on which the functions above are evaluated.
  The sniffer knows the PNG signature and the BMP magic \<open>BM\<close> and calls everything else
  \<open>application/octet-stream\<close>; the PNG decoder reads the signature and the IHDR chunk
  (33 bytes), the BMP decoder the two headers (54 bytes); both take the low byte of each
  dimension.
\<close>

definition png_signature :: "byte list" where
  "png_signature = [137, 80, 78, 71, 13, 10, 26, 10]"

definition example_png :: "byte list" where
  "example_png =
     png_signature @
     [0, 0, 0, 13, 73, 72, 68, 82, 0, 0, 0, 2, 0, 0, 0, 3, 8, 6, 0, 0, 0, 1, 2, 3, 4] @
     [0, 0, 0, 0, 73, 69, 78, 68, 174, 66, 96, 130]"

definition example_png_tail :: "byte list" where
  "example_png_tail = [0, 0, 0, 0, 73, 69, 78, 68, 174, 66, 96, 130]"

text \<open>The two headers of a BMP (14 and 40 bytes) whose width field is zero and whose
  height field is five.\<close>

definition example_bmp :: "byte list" where
  "example_bmp =
     [66, 77, 54, 0, 0, 0, 0, 0, 0, 0, 54, 0, 0, 0] @
     [40, 0, 0, 0, 0, 0, 0, 0, 5, 0, 0, 0, 1, 0, 24, 0] @ replicate 24 0"

definition example_text :: "byte list" where
  "example_text = [104, 101, 108, 108, 111]"

definition example_env :: env where
  "example_env =
     \<lparr>DetectContentType =
        (\<lambda>b. if take 8 b = png_signature then ''image/png''
             else if take 2 b = [66, 77] then ''image/bmp''
             else ''application/octet-stream''),
      DecodeConfig =
        (\<lambda>d b. if d = png_DecodeConfig \<and> 33 \<le> length b
                then (Inr \<lparr>ConfigWidth = ucast (b ! 19), ConfigHeight = ucast (b ! 23)\<rparr>, 33)
              else if d = bmp_DecodeConfig \<and> 54 \<le> length b
                then (Inr \<lparr>ConfigWidth = ucast (b ! 18), ConfigHeight = ucast (b ! 22)\<rparr>, 54)
              else (Inl (ErrorsNew ''unexpected EOF''), length b))\<rparr>"

text \<open>The header of an upload as the multipart parser builds it: \<open>Size\<close> is the number of
  bytes of the part. The last argument scripts the outcomes of the \<open>Seek\<close> calls.\<close>

definition upload :: "string \<Rightarrow> byte list \<Rightarrow> go_error option list \<Rightarrow> FileHeader" where
  "upload name bs script =
     \<lparr>Filename = name, FileSize = of_nat (length bs),
      Open = Inr \<lparr>contents = bs, offset = 0, read_error = None, seek_script = script\<rparr>\<rparr>"

definition example_disk :: filesystem where
  "example_disk =
     \<lparr>cwd = [],
      nodes = [[''srv''] \<mapsto> Dir, [''srv'', ''img''] \<mapsto> Dir,
               [''srv'', ''secret.txt''] \<mapsto> File [1, 2, 3]]\<rparr>"

text \<open>The same disk before the image directory exists.\<close>

definition bare_disk :: filesystem where
  "bare_disk = \<lparr>cwd = [], nodes = [[''srv''] \<mapsto> Dir]\<rparr>"

definition example_storage :: localImageStorage where
  "example_storage = \<lparr>path = ''/srv/img''\<rparr>"

definition example_s3 :: s3ImageStorage where
  "example_s3 = \<lparr>bucket = ''pictures'', prefix = ''img/'', cloudFrontURL = ''https://cdn.example''\<rparr>"

definition example_media :: media where
  "example_media = \<lparr>disk = example_disk, s3 = Map.empty\<rparr>"

text \<open>A PNG cut off inside its IHDR chunk, and one of 2 GiB.\<close>

definition truncated_png :: "byte list" where
  "truncated_png = take 20 example_png"

definition big_png :: "byte list" where
  "big_png = example_png @ replicate (2147483648 - 45) 0"

text \<open>The example disk once \<open>/srv/img/u1.png\<close> holds the given bytes.\<close>

definition disk_with :: "byte list \<Rightarrow> filesystem" where
  "disk_with bs = example_disk\<lparr>nodes := (nodes example_disk)([''srv'', ''img'', ''u1.png''] \<mapsto> File bs)\<rparr>"

text \<open>An upload whose second \<open>Seek\<close> fails.\<close>

definition faulty_upload :: FileHeader where
  "faulty_upload = upload ''cat.png'' example_png [None, Some (SysError ''EIO'')]"

definition example_record :: PictureRequest where
  "example_record =
     \<lparr>Name = ''cat.png'', Destination = ''u1.png'', Height = 3, Width = 2, Size = 45,
      ContentType = ''image/png''\<rparr>"

text \<open>The bare disk once \<open>/srv/img\<close> is made, and a bucket that holds the example.\<close>

definition rooted_disk :: filesystem where
  "rooted_disk = \<lparr>cwd = [], nodes = [[''srv''] \<mapsto> Dir, [''srv'', ''img''] \<mapsto> Dir]\<rparr>"

definition example_bucket :: s3_medium where
  "example_bucket =
     [(''pictures'', ''img/u1.png'') \<mapsto>
        \<lparr>Body = example_png, ObjectContentType = ''image/png'', ACL = ''private''\<rparr>]"

section \<open>Facts about the model\<close>

lemmas example_defs = example_env_def example_storage_def no_faults_def upload_def example_png_def
  png_signature_def example_disk_def example_png_tail_def example_bmp_def example_text_def
  bare_disk_def example_s3_def example_media_def truncated_png_def big_png_def disk_with_def
  faulty_upload_def example_record_def rooted_disk_def example_bucket_def

lemmas step_defs = filepath_Ext_def local_GetFullPath_def s3_GetFullPath_def file_Read_def
  fill_buffer_def CONTENT_DECODERS_def file_Seek_start_def run_decoder_def remaining_def
  os_Create_def resolve_def start_dir_def is_dir_def io_Copy_def append_bytes_def to_int32_def
  server_error_def os_Open_def ioutil_ReadAll_def node_exists_def uploader_Upload_def
  client_GetObject_def StatusBadRequest_def StatusInternalServerError_def
  ObjectCannedACLPrivate_def Let_def

subsection \<open>Integer conversions\<close>



subsection \<open>Path resolution\<close>

text \<open>A successful resolution never looked at a node that is not a directory, so
  writing such a node leaves it as it was.\<close>

lemma walk_update:
  "walk ns cur cs = Inr q \<Longrightarrow> ns q' \<noteq> Some Dir \<Longrightarrow> walk (ns(q' \<mapsto> n)) cur cs = Inr q"
proof (induction ns cur cs rule: walk.induct)
  case (1 ns cur)
  then show ?case by simp
next
  case (2 ns cur c cs)
  then show ?case
    by (auto split: if_splits option.splits node.splits)
qed

lemma resolve_update:
  "resolve fs p = Inr q \<Longrightarrow> nodes fs q' \<noteq> Some Dir \<Longrightarrow>
   resolve (fs\<lparr>nodes := (nodes fs)(q' \<mapsto> n)\<rparr>) p = Inr q"
  by (simp add: resolve_def walk_update)

subsection \<open>The stream\<close>

lemma file_Read_contents:
  "file_Read f n = (f', chunk, r) \<Longrightarrow> contents f' = contents f \<and> seek_script f' = seek_script f"
  by (auto simp: file_Read_def Let_def split: option.splits if_splits)

lemma file_Seek_start_contents:
  "file_Seek_start f = (f', r) \<Longrightarrow> contents f' = contents f \<and> seek_script f' = tl (seek_script f)"
  by (auto simp: file_Seek_start_def split: list.splits option.splits)

lemma file_Seek_start_ok:
  "file_Seek_start f = (f', None) \<Longrightarrow> offset f' = 0"
  by (auto simp: file_Seek_start_def split: list.splits option.splits)

lemma run_decoder_contents:
  "run_decoder ev d f = (f', r) \<Longrightarrow> contents f' = contents f \<and> seek_script f' = seek_script f"
  by (auto simp: run_decoder_def split: prod.splits)

subsection \<open>The early returns of \<open>Save\<close>\<close>

lemma local_Save_unregistered:
  assumes "Open file = Inr src" and "file_Read src 512 = (src1, chunk, None)"
    and "CONTENT_DECODERS (DetectContentType ev (fill_buffer 512 chunk)) = None"
  shows "local_Save ev s unique flt file fs =
    (Inl \<lparr>StatusCode = 400, Error = ErrorsNew ''unsupported format'',
          Data = [''format'' \<mapsto> DetectContentType ev (fill_buffer 512 chunk)]\<rparr>, fs)"
  using assms by (simp add: local_Save_def StatusBadRequest_def)

lemma s3_Save_unregistered:
  assumes "Open file = Inr src" and "file_Read src 512 = (src1, chunk, None)"
    and "CONTENT_DECODERS (DetectContentType ev (fill_buffer 512 chunk)) = None"
  shows "s3_Save ev s unique flt file m =
    (Inl \<lparr>StatusCode = 400, Error = ErrorsNew ''unsupported image format'',
          Data = [''format'' \<mapsto> DetectContentType ev (fill_buffer 512 chunk)]\<rparr>, m)"
  using assms by (simp add: s3_Save_def StatusBadRequest_def)

lemma local_Save_decode_fails:
  assumes "Open file = Inr src" and "file_Read src 512 = (src1, chunk, None)"
    and "CONTENT_DECODERS (DetectContentType ev (fill_buffer 512 chunk)) = Some d"
    and "file_Seek_start src1 = (src2, None)"
    and "run_decoder ev d src2 = (src3, Inl err)"
  shows "local_Save ev s unique flt file fs =
    (Inl \<lparr>StatusCode = 500, Error = err,
          Data = [''format'' \<mapsto> DetectContentType ev (fill_buffer 512 chunk)]\<rparr>, fs)"
  using assms by (simp add: local_Save_def StatusInternalServerError_def)

lemma s3_Save_decode_fails:
  assumes "Open file = Inr src" and "file_Read src 512 = (src1, chunk, None)"
    and "CONTENT_DECODERS (DetectContentType ev (fill_buffer 512 chunk)) = Some d"
    and "file_Seek_start src1 = (src2, None)"
    and "run_decoder ev d src2 = (src3, Inl err)"
  shows "s3_Save ev s unique flt file m =
    (Inl \<lparr>StatusCode = 500, Error = Errorf ''decode error'' err,
          Data = [''format'' \<mapsto> DetectContentType ev (fill_buffer 512 chunk)]\<rparr>, m)"
  using assms by (simp add: s3_Save_def StatusInternalServerError_def)

lemma CONTENT_DECODERS_dom:
  "dom CONTENT_DECODERS =
     {''image/jpeg'', ''image/png'', ''image/gif'', ''image/tiff'', ''image/webp'', ''image/bmp''}"
  by (auto simp: CONTENT_DECODERS_def split: if_splits)

subsection \<open>The example uploads, step by step\<close>

lemma Open_upload:
  "Open (upload name bs script) =
     Inr \<lparr>contents = bs, offset = 0, read_error = None, seek_script = script\<rparr>"
  by (simp add: upload_def)

lemma Read_example_text:
  "file_Read \<lparr>contents = example_text, offset = 0, read_error = None, seek_script = []\<rparr> 512 =
     (\<lparr>contents = example_text, offset = 5, read_error = None, seek_script = []\<rparr>,
      example_text, None)"
  by (simp add: file_Read_def example_text_def Let_def)

lemma sniff_example_text:
  "DetectContentType example_env (fill_buffer 512 example_text) = ''application/octet-stream''"
  by (simp add: example_env_def fill_buffer_def example_text_def png_signature_def)

lemma Read_truncated_png:
  "file_Read \<lparr>contents = truncated_png, offset = 0, read_error = None, seek_script = []\<rparr> 512 =
     (\<lparr>contents = truncated_png, offset = 20, read_error = None, seek_script = []\<rparr>,
      truncated_png, None)"
  by (simp add: file_Read_def truncated_png_def example_png_def png_signature_def Let_def)

lemma sniff_truncated_png:
  "DetectContentType example_env (fill_buffer 512 truncated_png) = ''image/png''"
  by (simp add: example_env_def fill_buffer_def truncated_png_def example_png_def
      png_signature_def)


subsection \<open>The steps of a successful \<open>Save\<close>\<close>

lemma local_Save_steps:
  assumes "local_Save ev s unique flt file fs = (Inr pr, fs')"
  shows "\<exists>src src1 chunk d src2 src3 cfg q fs1.
     Open file = Inr src \<and> file_Read src 512 = (src1, chunk, None) \<and>
     CONTENT_DECODERS (DetectContentType ev (fill_buffer 512 chunk)) = Some d \<and>
     file_Seek_start src1 = (src2, None) \<and> run_decoder ev d src2 = (src3, Inr cfg) \<and>
     os_Create flt fs (local_GetFullPath s (unique @ filepath_Ext (Filename file))) = Inr (q, fs1) \<and>
     io_Copy flt q (fst (file_Seek_start src3)) fs1 = (fs', None) \<and>
     pr = \<lparr>Name = Filename file, Destination = unique @ filepath_Ext (Filename file),
           Height = to_int32 (ConfigHeight cfg), Width = to_int32 (ConfigWidth cfg),
           Size = to_int32 (FileSize file),
           ContentType = DetectContentType ev (fill_buffer 512 chunk)\<rparr>"
  using assms unfolding local_Save_def Let_def
  by (auto split: sum.splits prod.splits option.splits)

lemma s3_Save_steps:
  assumes "s3_Save ev s unique flt file m = (Inr pr, m')"
  shows "\<exists>src src1 chunk d src2 src3 cfg src4.
     Open file = Inr src \<and> file_Read src 512 = (src1, chunk, None) \<and>
     CONTENT_DECODERS (DetectContentType ev (fill_buffer 512 chunk)) = Some d \<and>
     file_Seek_start src1 = (src2, None) \<and> run_decoder ev d src2 = (src3, Inr cfg) \<and>
     file_Seek_start src3 = (src4, None) \<and>
     uploader_Upload flt
       \<lparr>PutBucket = bucket s, PutKey = prefix s @ unique @ filepath_Ext (Filename file),
        PutBody = src4, PutContentType = DetectContentType ev (fill_buffer 512 chunk),
        PutACL = ObjectCannedACLPrivate\<rparr> m = Inr m' \<and>
     pr = \<lparr>Name = Filename file, Destination = unique @ filepath_Ext (Filename file),
           Height = to_int32 (ConfigHeight cfg), Width = to_int32 (ConfigWidth cfg),
           Size = to_int32 (FileSize file),
           ContentType = DetectContentType ev (fill_buffer 512 chunk)\<rparr>"
  using assms unfolding s3_Save_def Let_def
  by (auto split: sum.splits prod.splits option.splits)

lemma os_Create_ok:
  assumes "os_Create flt fs p = Inr (q, fs1)"
  shows "resolve fs p = Inr q \<and> nodes fs q \<noteq> Some Dir \<and>
         fs1 = fs\<lparr>nodes := (nodes fs)(q \<mapsto> File [])\<rparr>"
  using assms
  by (auto simp: os_Create_def is_dir_def split: option.splits sum.splits if_splits)

lemma rewound_stream:
  assumes "second_rewind_ok src" and "seek_script f = tl (seek_script src)"
    and "contents f = contents src"
  shows "remaining (fst (file_Seek_start f)) = contents src"
  using assms
  by (auto simp: second_rewind_ok_def file_Seek_start_def remaining_def
      split: list.splits option.splits)

lemma stream_before_persist:
  assumes "file_Read src 512 = (src1, chunk, r1)" and "file_Seek_start src1 = (src2, r2)"
    and "run_decoder ev d src2 = (src3, r3)"
  shows "contents src3 = contents src \<and> seek_script src3 = tl (seek_script src)"
  using file_Read_contents [OF assms(1)] file_Seek_start_contents [OF assms(2)]
    run_decoder_contents [OF assms(3)]
  by simp

lemma local_Save_persists:
  assumes "local_Save ev s unique flt file fs = (Inr pr, fs')" and "Open file = Inr src"
    and "second_rewind_ok src"
  shows "\<exists>q. resolve fs' (path s @ ''/'' @ Destination pr) = Inr q \<and>
             nodes fs' q = Some (File (contents src))"
proof -
  from local_Save_steps [OF assms(1)] assms(2)
  obtain src1 chunk d src2 src3 cfg q fs1 where
    rd: "file_Read src 512 = (src1, chunk, None)" and
    sk: "file_Seek_start src1 = (src2, None)" and
    dc: "run_decoder ev d src2 = (src3, Inr cfg)" and
    cr: "os_Create flt fs (local_GetFullPath s (unique @ filepath_Ext (Filename file))) = Inr (q, fs1)" and
    cp: "io_Copy flt q (fst (file_Seek_start src3)) fs1 = (fs', None)" and
    dest: "Destination pr = unique @ filepath_Ext (Filename file)"
    by auto
  from os_Create_ok [OF cr] have
    rs: "resolve fs (path s @ ''/'' @ Destination pr) = Inr q" and
    nd: "nodes fs q \<noteq> Some Dir" and
    fs1: "fs1 = fs\<lparr>nodes := (nodes fs)(q \<mapsto> File [])\<rparr>"
    by (simp_all add: local_GetFullPath_def dest)
  from stream_before_persist [OF rd sk dc]
  have "remaining (fst (file_Seek_start src3)) = contents src"
    using assms(3) by (simp add: rewound_stream)
  with cp have fs': "fs' = fs\<lparr>nodes := (nodes fs)(q \<mapsto> File (contents src))\<rparr>"
    by (auto simp: io_Copy_def append_bytes_def fs1 split: option.splits prod.splits)
  have "resolve fs' (path s @ ''/'' @ Destination pr) = Inr q"
    unfolding fs' by (rule resolve_update [OF rs nd])
  moreover have "nodes fs' q = Some (File (contents src))"
    by (simp add: fs')
  ultimately show ?thesis by blast
qed

lemma s3_Save_persists:
  assumes "s3_Save ev s unique flt file m = (Inr pr, m')" and "Open file = Inr src"
  shows "m' (bucket s, prefix s @ Destination pr) =
     Some \<lparr>Body = contents src, ObjectContentType = ContentType pr, ACL = ''private''\<rparr>"
proof -
  from s3_Save_steps [OF assms(1)] assms(2)
  obtain src1 chunk d src2 src3 cfg src4 where
    rd: "file_Read src 512 = (src1, chunk, None)" and
    sk: "file_Seek_start src1 = (src2, None)" and
    dc: "run_decoder ev d src2 = (src3, Inr cfg)" and
    sk2: "file_Seek_start src3 = (src4, None)" and
    up: "uploader_Upload flt
       \<lparr>PutBucket = bucket s, PutKey = prefix s @ unique @ filepath_Ext (Filename file),
        PutBody = src4, PutContentType = DetectContentType ev (fill_buffer 512 chunk),
        PutACL = ObjectCannedACLPrivate\<rparr> m = Inr m'" and
    pr: "pr = \<lparr>Name = Filename file, Destination = unique @ filepath_Ext (Filename file),
           Height = to_int32 (ConfigHeight cfg), Width = to_int32 (ConfigWidth cfg),
           Size = to_int32 (FileSize file),
           ContentType = DetectContentType ev (fill_buffer 512 chunk)\<rparr>"
    by auto
  from stream_before_persist [OF rd sk dc] file_Seek_start_contents [OF sk2]
    file_Seek_start_ok [OF sk2]
  have "remaining src4 = contents src"
    by (simp add: remaining_def)
  with up show ?thesis
    by (auto simp: uploader_Upload_def pr ObjectCannedACLPrivate_def split: option.splits)
qed

lemma local_round_trip:
  assumes "local_Save ev s unique flt file fs = (Inr pr, fs')" and "Open file = Inr src"
    and "second_rewind_ok src"
  shows "local_Get s no_faults fs' (Destination pr) = (contents src, None)"
proof -
  from local_Save_persists [OF assms] obtain q where
    "resolve fs' (path s @ ''/'' @ Destination pr) = Inr q" and
    "nodes fs' q = Some (File (contents src))"
    by blast
  then show ?thesis
    by (simp add: local_Get_def local_GetFullPath_def os_Open_def ioutil_ReadAll_def
        node_exists_def no_faults_def)
qed

lemma s3_round_trip:
  assumes "s3_Save ev s unique flt file m = (Inr pr, m')" and "Open file = Inr src"
  shows "s3_Get s no_faults m' (Destination pr) = (contents src, None)"
  using s3_Save_persists [OF assms]
  by (simp add: s3_Get_def client_GetObject_def no_faults_def)







subsection \<open>The examples, evaluated\<close>






text \<open>An empty upload fails at the first \<open>Read\<close>, with \<open>io.EOF\<close> and status 500.\<close>

lemma local_Save_empty_upload:
  "local_Save ev s unique flt (upload name [] script) fs = (Inl (server_error EOF), fs)"
  by (simp add: local_Save_def upload_def file_Read_def)

text \<open>The failures that both variants do return.\<close>

lemma local_Save_returns_failures:
  "(Open fh = Inl err \<longrightarrow> local_Save ev s unique flt fh fs = (Inl (server_error err), fs)) \<and>
   (Open fh = Inr src \<longrightarrow> file_Read src 512 = (src1, chunk, Some err) \<longrightarrow>
      local_Save ev s unique flt fh fs = (Inl (server_error err), fs)) \<and>
   (Open fh = Inr src \<longrightarrow> file_Read src 512 = (src1, chunk, None) \<longrightarrow>
      CONTENT_DECODERS (DetectContentType ev (fill_buffer 512 chunk)) = Some d \<longrightarrow>
      file_Seek_start src1 = (src2, Some err) \<longrightarrow>
      local_Save ev s unique flt fh fs = (Inl (server_error err), fs)) \<and>
   (Open fh = Inr src \<longrightarrow> file_Read src 512 = (src1, chunk, None) \<longrightarrow>
      CONTENT_DECODERS (DetectContentType ev (fill_buffer 512 chunk)) = Some d \<longrightarrow>
      file_Seek_start src1 = (src2, None) \<longrightarrow> run_decoder ev d src2 = (src3, Inr cfg) \<longrightarrow>
      os_Create flt fs (local_GetFullPath s (unique @ filepath_Ext (Filename fh))) = Inl err \<longrightarrow>
      local_Save ev s unique flt fh fs = (Inl (server_error err), fs)) \<and>
   (Open fh = Inr src \<longrightarrow> file_Read src 512 = (src1, chunk, None) \<longrightarrow>
      CONTENT_DECODERS (DetectContentType ev (fill_buffer 512 chunk)) = Some d \<longrightarrow>
      file_Seek_start src1 = (src2, None) \<longrightarrow> run_decoder ev d src2 = (src3, Inr cfg) \<longrightarrow>
      os_Create flt fs (local_GetFullPath s (unique @ filepath_Ext (Filename fh))) = Inr (q, fs1) \<longrightarrow>
      io_Copy flt q (fst (file_Seek_start src3)) fs1 = (fs2, Some err) \<longrightarrow>
      local_Save ev s unique flt fh fs = (Inl (server_error err), fs2))"
  by (simp add: local_Save_def)

lemma s3_Save_returns_failures:
  "(Open fh = Inl err \<longrightarrow>
      s3_Save ev s unique flt fh m = (Inl (server_error (Errorf ''cannot open file'' err)), m)) \<and>
   (Open fh = Inr src \<longrightarrow> file_Read src 512 = (src1, chunk, Some err) \<longrightarrow>
      s3_Save ev s unique flt fh m =
        (Inl (server_error (Errorf ''cannot read file header'' err)), m)) \<and>
   (Open fh = Inr src \<longrightarrow> file_Read src 512 = (src1, chunk, None) \<longrightarrow>
      CONTENT_DECODERS (DetectContentType ev (fill_buffer 512 chunk)) = Some d \<longrightarrow>
      file_Seek_start src1 = (src2, Some err) \<longrightarrow>
      s3_Save ev s unique flt fh m = (Inl (server_error (Errorf ''seek error'' err)), m)) \<and>
   (Open fh = Inr src \<longrightarrow> file_Read src 512 = (src1, chunk, None) \<longrightarrow>
      CONTENT_DECODERS (DetectContentType ev (fill_buffer 512 chunk)) = Some d \<longrightarrow>
      file_Seek_start src1 = (src2, None) \<longrightarrow> run_decoder ev d src2 = (src3, Inr cfg) \<longrightarrow>
      file_Seek_start src3 = (src4, Some err) \<longrightarrow>
      s3_Save ev s unique flt fh m =
        (Inl (server_error (Errorf ''seek before upload'' err)), m)) \<and>
   (Open fh = Inr src \<longrightarrow> file_Read src 512 = (src1, chunk, None) \<longrightarrow>
      CONTENT_DECODERS (DetectContentType ev (fill_buffer 512 chunk)) = Some d \<longrightarrow>
      file_Seek_start src1 = (src2, None) \<longrightarrow> run_decoder ev d src2 = (src3, Inr cfg) \<longrightarrow>
      file_Seek_start src3 = (src4, None) \<longrightarrow> upload_fault flt = Some err \<longrightarrow>
      s3_Save ev s unique flt fh m = (Inl (server_error (Errorf ''s3 upload failed'' err)), m))"
  by (simp add: s3_Save_def uploader_Upload_def)

section \<open>Round trip\<close>


section \<open>Unsupported formats\<close>

text \<open>
  C2. When the stream opens and its prefix is read, and the type sniffed from the
  512-byte buffer is not a key of \<open>CONTENT_DECODERS\<close>, \<open>Save\<close> of either variant returns
  an error with status 400 whose data maps \<open>format\<close> to the detected type, and the media
  are what they were before the call: nothing was persisted. (An upload that cannot be
  opened or read never reaches the sniffer; \<open>local_Save_empty_upload\<close> shows the empty one.)
\<close>

theorem Save_rejects_unregistered_type:
  assumes "Open file = Inr src" and "file_Read src 512 = (src1, chunk, None)"
    and "CONTENT_DECODERS (DetectContentType ev (fill_buffer 512 chunk)) = None"
  shows "Save ev st unique flt file w =
    (Inl \<lparr>StatusCode = 400,
          Error = ErrorsNew (case st of LocalStorage s \<Rightarrow> ''unsupported format''
                                      | S3Storage s \<Rightarrow> ''unsupported image format''),
          Data = [''format'' \<mapsto> DetectContentType ev (fill_buffer 512 chunk)]\<rparr>, w)"
  using assms by (cases st) (simp_all add: local_Save_unregistered s3_Save_unregistered)

theorem Save_rejects_unregistered_type_witness:
  "Open (upload ''cat.png'' example_text []) =
     Inr \<lparr>contents = example_text, offset = 0, read_error = None, seek_script = []\<rparr> \<and>
   file_Read \<lparr>contents = example_text, offset = 0, read_error = None, seek_script = []\<rparr> 512 =
     (\<lparr>contents = example_text, offset = 5, read_error = None, seek_script = []\<rparr>,
      example_text, None) \<and>
   CONTENT_DECODERS (DetectContentType example_env (fill_buffer 512 example_text)) = None \<and>
   Save example_env (LocalStorage example_storage) ''u1'' no_faults
       (upload ''cat.png'' example_text []) example_media =
     (Inl \<lparr>StatusCode = 400, Error = ErrorsNew ''unsupported format'',
           Data = [''format'' \<mapsto> ''application/octet-stream'']\<rparr>, example_media)"
proof -
  note h1 = Open_upload [of "''cat.png''" example_text "[]"]
  note h2 = Read_example_text
  have h3: "CONTENT_DECODERS (DetectContentType example_env (fill_buffer 512 example_text)) = None"
    by (simp add: sniff_example_text CONTENT_DECODERS_def)
  from Save_rejects_unregistered_type [OF h1 h2 h3, of "LocalStorage example_storage" "''u1''"
      no_faults example_media]
  show ?thesis using h1 h2 h3 by (simp add: sniff_example_text)
qed

section \<open>Corrupt content\<close>

text \<open>
  C3. When the sniffed type has a decoder in the registry, the stream is rewound, and the
  decoder fails on the header, \<open>Save\<close> of either variant returns an error with status 500
  whose data maps \<open>format\<close> to the detected type (the remote variant wraps the decoder's
  error in a message), and the media are what they were before the call.
\<close>

theorem Save_reports_corrupt_content:
  assumes "Open file = Inr src" and "file_Read src 512 = (src1, chunk, None)"
    and "CONTENT_DECODERS (DetectContentType ev (fill_buffer 512 chunk)) = Some d"
    and "file_Seek_start src1 = (src2, None)"
    and "run_decoder ev d src2 = (src3, Inl err)"
  shows "Save ev st unique flt file w =
    (Inl \<lparr>StatusCode = 500,
          Error = (case st of LocalStorage s \<Rightarrow> err | S3Storage s \<Rightarrow> Errorf ''decode error'' err),
          Data = [''format'' \<mapsto> DetectContentType ev (fill_buffer 512 chunk)]\<rparr>, w)"
  using assms by (cases st) (simp_all add: local_Save_decode_fails s3_Save_decode_fails)

theorem Save_reports_corrupt_content_witness:
  "Open (upload ''cat.png'' truncated_png []) =
     Inr \<lparr>contents = truncated_png, offset = 0, read_error = None, seek_script = []\<rparr> \<and>
   file_Read \<lparr>contents = truncated_png, offset = 0, read_error = None, seek_script = []\<rparr> 512 =
     (\<lparr>contents = truncated_png, offset = 20, read_error = None, seek_script = []\<rparr>,
      truncated_png, None) \<and>
   CONTENT_DECODERS (DetectContentType example_env (fill_buffer 512 truncated_png)) =
     Some png_DecodeConfig \<and>
   file_Seek_start \<lparr>contents = truncated_png, offset = 20, read_error = None, seek_script = []\<rparr> =
     (\<lparr>contents = truncated_png, offset = 0, read_error = None, seek_script = []\<rparr>, None) \<and>
   run_decoder example_env png_DecodeConfig
       \<lparr>contents = truncated_png, offset = 0, read_error = None, seek_script = []\<rparr> =
     (\<lparr>contents = truncated_png, offset = 20, read_error = None, seek_script = []\<rparr>,
      Inl (ErrorsNew ''unexpected EOF'')) \<and>
   Save example_env (S3Storage example_s3) ''u1'' no_faults
       (upload ''cat.png'' truncated_png []) example_media =
     (Inl \<lparr>StatusCode = 500, Error = Errorf ''decode error'' (ErrorsNew ''unexpected EOF''),
           Data = [''format'' \<mapsto> ''image/png'']\<rparr>, example_media)"
proof -
  note h1 = Open_upload [of "''cat.png''" truncated_png "[]"]
  note h2 = Read_truncated_png
  have h3: "CONTENT_DECODERS (DetectContentType example_env (fill_buffer 512 truncated_png)) =
      Some png_DecodeConfig"
    by (simp add: sniff_truncated_png CONTENT_DECODERS_def)
  have h4: "file_Seek_start
       \<lparr>contents = truncated_png, offset = 20, read_error = None, seek_script = []\<rparr> =
     (\<lparr>contents = truncated_png, offset = 0, read_error = None, seek_script = []\<rparr>, None)"
    by (simp add: file_Seek_start_def)
  have h5: "run_decoder example_env png_DecodeConfig
       \<lparr>contents = truncated_png, offset = 0, read_error = None, seek_script = []\<rparr> =
     (\<lparr>contents = truncated_png, offset = 20, read_error = None, seek_script = []\<rparr>,
      Inl (ErrorsNew ''unexpected EOF''))"
    by (simp add: run_decoder_def remaining_def example_env_def truncated_png_def
        example_png_def png_signature_def)
  from Save_reports_corrupt_content [OF h1 h2 h3 h4 h5, of "S3Storage example_s3" "''u1''"
      no_faults example_media]
  show ?thesis using h1 h2 h3 h4 h5 by (simp add: sniff_truncated_png)
qed

section \<open>Propagation of failures\<close>


section \<open>Errors of \<open>Get\<close>\<close>

text \<open>
  C5. The remote \<open>Get\<close> turns a request error whose code is \<open>NoSuchKey\<close> (what the medium
  answers for a missing key) into \<open>S3NotFoundError\<close>, and every other failure of the request
  or of reading the body into \<open>S3DownloadError\<close>, a different constructor. The local \<open>Get\<close>
  returns the error of \<open>os.Open\<close> or of the read as it is, for a missing file (the system's
  ENOENT) as for any other fault.
\<close>

theorem Get_error_kinds:
  "(getobject_fault flt = None \<longrightarrow> m (bucket sc, prefix sc @ key) = None \<longrightarrow>
      s3_Get sc flt m key = ([], Some (S3NotFoundError key))) \<and>
   (client_GetObject flt m (bucket sc) (prefix sc @ key) = Inl err \<longrightarrow>
      errors_As_ErrorCode err = Some ''NoSuchKey'' \<longrightarrow>
      s3_Get sc flt m key = ([], Some (S3NotFoundError key))) \<and>
   (client_GetObject flt m (bucket sc) (prefix sc @ key) = Inl err \<longrightarrow>
      errors_As_ErrorCode err \<noteq> Some ''NoSuchKey'' \<longrightarrow>
      s3_Get sc flt m key = ([], Some (S3DownloadError key err))) \<and>
   (client_GetObject flt m (bucket sc) (prefix sc @ key) = Inr body \<longrightarrow>
      body_fault flt = Some err \<longrightarrow>
      s3_Get sc flt m key = ([], Some (S3DownloadError key err))) \<and>
   S3NotFoundError key \<noteq> S3DownloadError key err \<and>
   (os_Open flt fs (local_GetFullPath s key) = Inl err \<longrightarrow>
      local_Get s flt fs key = ([], Some err)) \<and>
   (os_Open flt fs (local_GetFullPath s key) = Inr q \<longrightarrow>
      local_Get s flt fs key = ioutil_ReadAll flt fs q) \<and>
   (open_fault flt = None \<longrightarrow> resolve fs (local_GetFullPath s key) = Inr q \<longrightarrow>
      \<not> node_exists fs q \<longrightarrow>
      local_Get s flt fs key = ([], Some (SysError ''ENOENT''))) \<and>
   (open_fault flt = Some err \<longrightarrow> local_Get s flt fs key = ([], Some err))"
  by (simp add: s3_Get_def client_GetObject_def local_Get_def os_Open_def)

theorem Get_error_kinds_witness:
  "s3_Get example_s3 no_faults Map.empty ''u9.png'' = ([], Some (S3NotFoundError ''u9.png'')) \<and>
   s3_Get example_s3 (no_faults\<lparr>getobject_fault := Some (OperationError (APIError ''NoSuchKey''))\<rparr>)
       Map.empty ''u9.png'' = ([], Some (S3NotFoundError ''u9.png'')) \<and>
   s3_Get example_s3 (no_faults\<lparr>getobject_fault := Some (OperationError (APIError ''AccessDenied''))\<rparr>)
       Map.empty ''u9.png'' =
     ([], Some (S3DownloadError ''u9.png'' (OperationError (APIError ''AccessDenied'')))) \<and>
   s3_Get example_s3 (no_faults\<lparr>body_fault := Some (SysError ''ECONNRESET'')\<rparr>)
       example_bucket ''u1.png'' =
     ([], Some (S3DownloadError ''u1.png'' (SysError ''ECONNRESET''))) \<and>
   local_Get example_storage no_faults example_disk ''u9.png'' = ([], Some (SysError ''ENOENT'')) \<and>
   local_Get example_storage (no_faults\<lparr>open_fault := Some (SysError ''EACCES'')\<rparr>)
       example_disk ''u9.png'' = ([], Some (SysError ''EACCES'')) \<and>
   local_Get example_storage no_faults example_disk '''' = ([], Some (SysError ''EISDIR''))"
proof -
  have g1: "getobject_fault no_faults = None" "open_fault no_faults = None"
    by (simp_all add: no_faults_def)
  have g2: "Map.empty (bucket example_s3, prefix example_s3 @ ''u9.png'') = (None :: s3_object option)"
    by simp
  have g3: "client_GetObject
      (no_faults\<lparr>getobject_fault := Some (OperationError (APIError ''NoSuchKey''))\<rparr>)
      Map.empty (bucket example_s3) (prefix example_s3 @ ''u9.png'') =
      Inl (OperationError (APIError ''NoSuchKey''))"
    "errors_As_ErrorCode (OperationError (APIError ''NoSuchKey'')) = Some ''NoSuchKey''"
    by (simp_all add: client_GetObject_def)
  have g4: "client_GetObject
      (no_faults\<lparr>getobject_fault := Some (OperationError (APIError ''AccessDenied''))\<rparr>)
      Map.empty (bucket example_s3) (prefix example_s3 @ ''u9.png'') =
      Inl (OperationError (APIError ''AccessDenied''))"
    "errors_As_ErrorCode (OperationError (APIError ''AccessDenied'')) \<noteq> Some ''NoSuchKey''"
    by (simp_all add: client_GetObject_def)
  have g5: "client_GetObject (no_faults\<lparr>body_fault := Some (SysError ''ECONNRESET'')\<rparr>)
      example_bucket (bucket example_s3) (prefix example_s3 @ ''u1.png'') = Inr example_png"
    "body_fault (no_faults\<lparr>body_fault := Some (SysError ''ECONNRESET'')\<rparr>) =
      Some (SysError ''ECONNRESET'')"
    by (simp_all add: client_GetObject_def no_faults_def example_bucket_def example_s3_def)
  have g6: "resolve example_disk (local_GetFullPath example_storage ''u9.png'') =
      Inr [''srv'', ''img'', ''u9.png'']"
    "\<not> node_exists example_disk [''srv'', ''img'', ''u9.png'']"
    by (simp_all add: example_disk_def example_storage_def step_defs)
  have g7: "open_fault (no_faults\<lparr>open_fault := Some (SysError ''EACCES'')\<rparr>) =
      Some (SysError ''EACCES'')"
    by simp
  have g8: "os_Open no_faults example_disk (local_GetFullPath example_storage '''') =
      Inr [''srv'', ''img'']"
    "ioutil_ReadAll no_faults example_disk [''srv'', ''img''] = ([], Some (SysError ''EISDIR''))"
    by (simp_all add: example_disk_def example_storage_def no_faults_def step_defs)
  have a: "s3_Get example_s3 no_faults Map.empty ''u9.png'' =
      ([], Some (S3NotFoundError ''u9.png''))"
    using Get_error_kinds [where flt = no_faults and m = Map.empty and sc = example_s3
        and key = "''u9.png''"] g1 g2
    by blast
  have b: "s3_Get example_s3
      (no_faults\<lparr>getobject_fault := Some (OperationError (APIError ''NoSuchKey''))\<rparr>)
      Map.empty ''u9.png'' = ([], Some (S3NotFoundError ''u9.png''))"
    using Get_error_kinds [where
        flt = "no_faults\<lparr>getobject_fault := Some (OperationError (APIError ''NoSuchKey''))\<rparr>"
        and m = Map.empty and sc = example_s3 and key = "''u9.png''"
        and err = "OperationError (APIError ''NoSuchKey'')"] g3
    by blast
  have c: "s3_Get example_s3
      (no_faults\<lparr>getobject_fault := Some (OperationError (APIError ''AccessDenied''))\<rparr>)
      Map.empty ''u9.png'' =
      ([], Some (S3DownloadError ''u9.png'' (OperationError (APIError ''AccessDenied''))))"
    using Get_error_kinds [where
        flt = "no_faults\<lparr>getobject_fault := Some (OperationError (APIError ''AccessDenied''))\<rparr>"
        and m = Map.empty and sc = example_s3 and key = "''u9.png''"
        and err = "OperationError (APIError ''AccessDenied'')"] g4
    by blast
  have d: "s3_Get example_s3 (no_faults\<lparr>body_fault := Some (SysError ''ECONNRESET'')\<rparr>)
      example_bucket ''u1.png'' =
      ([], Some (S3DownloadError ''u1.png'' (SysError ''ECONNRESET'')))"
    using Get_error_kinds [where
        flt = "no_faults\<lparr>body_fault := Some (SysError ''ECONNRESET'')\<rparr>"
        and m = example_bucket and sc = example_s3 and key = "''u1.png''"
        and err = "SysError ''ECONNRESET''" and body = example_png] g5
    by blast
  have e: "local_Get example_storage no_faults example_disk ''u9.png'' =
      ([], Some (SysError ''ENOENT''))"
    using Get_error_kinds [where flt = no_faults and fs = example_disk and s = example_storage
        and key = "''u9.png''" and q = "[''srv'', ''img'', ''u9.png'']"] g1 g6
    by blast
  have f: "local_Get example_storage (no_faults\<lparr>open_fault := Some (SysError ''EACCES'')\<rparr>)
      example_disk ''u9.png'' = ([], Some (SysError ''EACCES''))"
    using Get_error_kinds [where flt = "no_faults\<lparr>open_fault := Some (SysError ''EACCES'')\<rparr>"
        and fs = example_disk and s = example_storage and key = "''u9.png''"
        and err = "SysError ''EACCES''"] g7
    by blast
  have g: "local_Get example_storage no_faults example_disk '''' =
      ([], Some (SysError ''EISDIR''))"
    using Get_error_kinds [where flt = no_faults and fs = example_disk and s = example_storage
        and key = "''''" and q = "[''srv'', ''img'']"] g8
    by simp
  show ?thesis using a b c d e f g by simp
qed

section \<open>The decoder registry\<close>

text \<open>
  C6. The keys of \<open>CONTENT_DECODERS\<close> are exactly the six MIME types image/jpeg,
  image/png, image/gif, image/tiff, image/webp and image/bmp, each mapped to the
  \<open>DecodeConfig\<close> of its format; and an upload whose sniffed type is none of the six is
  rejected by \<open>Save\<close> with status 400 and the detected type under \<open>format\<close>.
\<close>

theorem registry_has_exactly_six_formats:
  "dom CONTENT_DECODERS =
     {''image/jpeg'', ''image/png'', ''image/gif'', ''image/tiff'', ''image/webp'', ''image/bmp''} \<and>
   CONTENT_DECODERS ''image/jpeg'' = Some jpeg_DecodeConfig \<and>
   CONTENT_DECODERS ''image/png'' = Some png_DecodeConfig \<and>
   CONTENT_DECODERS ''image/gif'' = Some gif_DecodeConfig \<and>
   CONTENT_DECODERS ''image/tiff'' = Some tiff_DecodeConfig \<and>
   CONTENT_DECODERS ''image/webp'' = Some webp_DecodeConfig \<and>
   CONTENT_DECODERS ''image/bmp'' = Some bmp_DecodeConfig \<and>
   (Open file = Inr src \<longrightarrow> file_Read src 512 = (src_read, chunk, None) \<longrightarrow>
    DetectContentType ev (fill_buffer 512 chunk) \<notin>
      {''image/jpeg'', ''image/png'', ''image/gif'', ''image/tiff'', ''image/webp'', ''image/bmp''} \<longrightarrow>
    (\<exists>e. Save ev st unique flt file w = (Inl e, w) \<and> StatusCode e = 400 \<and>
         Data e = [''format'' \<mapsto> DetectContentType ev (fill_buffer 512 chunk)]))"
proof -
  have six: "CONTENT_DECODERS ''image/jpeg'' = Some jpeg_DecodeConfig \<and>
   CONTENT_DECODERS ''image/png'' = Some png_DecodeConfig \<and>
   CONTENT_DECODERS ''image/gif'' = Some gif_DecodeConfig \<and>
   CONTENT_DECODERS ''image/tiff'' = Some tiff_DecodeConfig \<and>
   CONTENT_DECODERS ''image/webp'' = Some webp_DecodeConfig \<and>
   CONTENT_DECODERS ''image/bmp'' = Some bmp_DecodeConfig"
    by (simp add: CONTENT_DECODERS_def)
  have rej: "\<exists>e. Save ev st unique flt file w = (Inl e, w) \<and> StatusCode e = 400 \<and>
         Data e = [''format'' \<mapsto> DetectContentType ev (fill_buffer 512 chunk)]"
    if o: "Open file = Inr src" and r: "file_Read src 512 = (src_read, chunk, None)"
      and t: "DetectContentType ev (fill_buffer 512 chunk) \<notin>
      {''image/jpeg'', ''image/png'', ''image/gif'', ''image/tiff'', ''image/webp'', ''image/bmp''}"
  proof -
    from t have "DetectContentType ev (fill_buffer 512 chunk) \<notin> dom CONTENT_DECODERS"
      unfolding CONTENT_DECODERS_dom .
    then have n: "CONTENT_DECODERS (DetectContentType ev (fill_buffer 512 chunk)) = None"
      by (simp add: domIff)
    show ?thesis
      by (cases st)
        (simp_all add: local_Save_unregistered [OF o r n] s3_Save_unregistered [OF o r n])
  qed
  show ?thesis using CONTENT_DECODERS_dom six rej by blast
qed

theorem registry_has_exactly_six_formats_witness:
  "dom CONTENT_DECODERS =
     {''image/jpeg'', ''image/png'', ''image/gif'', ''image/tiff'', ''image/webp'', ''image/bmp''} \<and>
   Open (upload ''notes.txt'' example_text []) =
     Inr \<lparr>contents = example_text, offset = 0, read_error = None, seek_script = []\<rparr> \<and>
   file_Read \<lparr>contents = example_text, offset = 0, read_error = None, seek_script = []\<rparr> 512 =
     (\<lparr>contents = example_text, offset = 5, read_error = None, seek_script = []\<rparr>,
      example_text, None) \<and>
   DetectContentType example_env (fill_buffer 512 example_text) \<notin>
     {''image/jpeg'', ''image/png'', ''image/gif'', ''image/tiff'', ''image/webp'', ''image/bmp''} \<and>
   (\<exists>e. Save example_env (S3Storage example_s3) ''u1'' no_faults
         (upload ''notes.txt'' example_text []) example_media = (Inl e, example_media) \<and>
       StatusCode e = 400 \<and> Data e = [''format'' \<mapsto> ''application/octet-stream''])"
proof -
  note h1 = Open_upload [of "''notes.txt''" example_text "[]"]
  note h2 = Read_example_text
  have h3: "DetectContentType example_env (fill_buffer 512 example_text) \<notin>
     {''image/jpeg'', ''image/png'', ''image/gif'', ''image/tiff'', ''image/webp'', ''image/bmp''}"
    by (simp add: sniff_example_text)
  from registry_has_exactly_six_formats [of "upload ''notes.txt'' example_text []"
      "\<lparr>contents = example_text, offset = 0, read_error = None, seek_script = []\<rparr>"
      "\<lparr>contents = example_text, offset = 5, read_error = None, seek_script = []\<rparr>"
      example_text example_env "S3Storage example_s3" "''u1''" no_faults example_media]
  show ?thesis using h1 h2 h3 by (simp add: sniff_example_text)
qed

section \<open>The record of a successful \<open>Save\<close>\<close>




section \<open>The persistence step\<close>




section \<open>Locators\<close>


text \<open>
  C10. The local \<open>GetFullPath\<close> is the literal concatenation for every key, and the local
  \<open>Get\<close> opens and reads exactly that path. A key with a \<open>..\<close> segment therefore leaves
  the root directory: under the root \<open>/srv/img\<close> the key \<open>../secret.txt\<close> reads the file
  \<open>/srv/secret.txt\<close>.
\<close>

theorem local_key_is_not_confined:
  "local_GetFullPath s key = path s @ ''/'' @ key \<and>
   local_Get s flt fs key =
     (case os_Open flt fs (path s @ ''/'' @ key) of
        Inl err \<Rightarrow> ([], Some err)
      | Inr q \<Rightarrow> ioutil_ReadAll flt fs q) \<and>
   local_GetFullPath example_storage ''../secret.txt'' = ''/srv/img/../secret.txt'' \<and>
   resolve example_disk ''/srv/img/../secret.txt'' = Inr [''srv'', ''secret.txt''] \<and>
   local_Get example_storage no_faults example_disk ''../secret.txt'' = ([1, 2, 3], None)"
  by (simp add: local_Get_def example_defs step_defs)

end
